theory Spec2Isabelle
  imports Main "HOL-Library.Word"
begin

section \<open>The smoke test \<^verbatim>\<open>testc/main.c\<close>\<close>

text \<open>
  The program is a single function:
  \<^verbatim>\<open>
  int main(int argc, char const *argv[])
  {
      void *mss = sm_io_media_source_stream_new_file("D:\\Media\\...Master5.mkv");
      void *format = sm_probe(mss);
      SMPacket* packet = sm_format_next_packet(format);
      if (packet != NULL) {
          printf("Packet was decoded");
      }
      return 0;
  }
  \<close>
  The three \<^verbatim>\<open>sm_\<close> functions are declared in \<^verbatim>\<open>symphonia.h\<close> and implemented by the
  library; their code is not part of this file, so the model takes them as a parameter:
  each one receives its argument and the library's state (open files, the file system,
  the heap behind the handles) and returns a pointer and the new state.
\<close>

subsection \<open>Pointers, calls and the process state\<close>

text \<open>
  A pointer is a machine address, 64 bits wide on the target the path literal belongs to;
  \<^verbatim>\<open>NULL\<close> is address 0. Nothing below depends on the width.
\<close>

type_synonym ptr = "64 word"

definition NULL :: ptr where
  "NULL = 0"

text \<open>
  The calls a run can make, recorded in the order they happen. A library call is recorded
  with its argument and the pointer it returned. \<open>Release\<close> stands for any call that
  frees, closes or releases a handle (\<^verbatim>\<open>free\<close> of \<^verbatim>\<open>stdlib.h\<close>, which the file
  includes, or a destructor of the library).
\<close>

datatype call =
    Sm_io_media_source_stream_new_file string ptr
  | Sm_probe ptr ptr
  | Sm_format_next_packet ptr ptr
  | Printf string
  | Release ptr

fun is_library_call :: "call \<Rightarrow> bool" where
  "is_library_call (Sm_io_media_source_stream_new_file _ _) = True"
| "is_library_call (Sm_probe _ _) = True"
| "is_library_call (Sm_format_next_packet _ _) = True"
| "is_library_call _ = False"

fun is_next_packet :: "call \<Rightarrow> bool" where
  "is_next_packet (Sm_format_next_packet _ _) = True"
| "is_next_packet _ = False"

fun is_release :: "call \<Rightarrow> bool" where
  "is_release (Release _) = True"
| "is_release _ = False"

text \<open>The kind of a call, without its arguments and results.\<close>

datatype kind = New_file | Probe | Next_packet | Print | Rel

fun kind_of :: "call \<Rightarrow> kind" where
  "kind_of (Sm_io_media_source_stream_new_file _ _) = New_file"
| "kind_of (Sm_probe _ _) = Probe"
| "kind_of (Sm_format_next_packet _ _) = Next_packet"
| "kind_of (Printf _) = Print"
| "kind_of (Release _) = Rel"

text \<open>The library, as the three functions the program calls.\<close>

record 'w symphonia =
  sm_io_media_source_stream_new_file :: "string \<Rightarrow> 'w \<Rightarrow> ptr \<times> 'w"
  sm_probe :: "ptr \<Rightarrow> 'w \<Rightarrow> ptr \<times> 'w"
  sm_format_next_packet :: "ptr \<Rightarrow> 'w \<Rightarrow> ptr \<times> 'w"

text \<open>
  The state of the running process: the library's state, what has been written to
  standard output, and the calls made so far. A library function acts on the library's
  state only: standard output is written by \<^verbatim>\<open>printf\<close> alone, and the list of calls is
  the model's record of the run, extended at each call.
\<close>

record 'w process =
  lib :: 'w
  stdout :: string
  calls :: "call list"

text \<open>The process as \<^verbatim>\<open>main\<close> is entered: nothing written, nothing called.\<close>

definition start :: "'w \<Rightarrow> 'w process" where
  "start w = \<lparr>lib = w, stdout = [], calls = []\<rparr>"

subsection \<open>The statements of \<^verbatim>\<open>main\<close>\<close>

definition call_new_file :: "'w symphonia \<Rightarrow> string \<Rightarrow> 'w process \<Rightarrow> ptr \<times> 'w process" where
  "call_new_file L p s =
     (let (r, w) = sm_io_media_source_stream_new_file L p (lib s)
      in (r, s\<lparr>lib := w, calls := calls s @ [Sm_io_media_source_stream_new_file p r]\<rparr>))"

definition call_probe :: "'w symphonia \<Rightarrow> ptr \<Rightarrow> 'w process \<Rightarrow> ptr \<times> 'w process" where
  "call_probe L a s =
     (let (r, w) = sm_probe L a (lib s)
      in (r, s\<lparr>lib := w, calls := calls s @ [Sm_probe a r]\<rparr>))"

definition call_next_packet :: "'w symphonia \<Rightarrow> ptr \<Rightarrow> 'w process \<Rightarrow> ptr \<times> 'w process" where
  "call_next_packet L a s =
     (let (r, w) = sm_format_next_packet L a (lib s)
      in (r, s\<lparr>lib := w, calls := calls s @ [Sm_format_next_packet a r]\<rparr>))"

text \<open>
  \<^verbatim>\<open>printf\<close> with a format that has no conversion specification and no further
  argument: the format is written as it is, and the number of characters is returned.
\<close>

definition printf :: "string \<Rightarrow> 'w process \<Rightarrow> int \<times> 'w process" where
  "printf fmt s =
     (int (length fmt), s\<lparr>stdout := stdout s @ fmt, calls := calls s @ [Printf fmt]\<rparr>)"

text \<open>The path literal; in the C source each backslash is written \<^verbatim>\<open>\\\<close>.\<close>

definition path :: string where
  "path = ''D:'' @ [CHR 0x5C] @ ''Media'' @ [CHR 0x5C] @ ''Torrent'' @ [CHR 0x5C] @ ''Movies''
     @ [CHR 0x5C] @ ''A.Million.Miles.Away.2023.DV.HDR.2160p.WEB-DL.H265.Master5.mkv''"

definition message :: string where
  "message = ''Packet was decoded''"

definition main :: "'w symphonia \<Rightarrow> int \<Rightarrow> string list \<Rightarrow> 'w process \<Rightarrow> int \<times> 'w process" where
  "main L argc argv s0 =
     (let (mss, s1) = call_new_file L path s0;
          (format, s2) = call_probe L mss s1;
          (packet, s3) = call_next_packet L format s2;
          s4 = (if packet \<noteq> NULL then snd (printf message s3) else s3)
      in (0, s4))"

subsection \<open>Two concrete libraries\<close>

text \<open>
  A library whose state counts the calls made to it. \<open>lib_ok\<close> opens the file, recognises
  it and returns a packet; \<open>lib_absent\<close> is a machine where the file does not exist and
  every call returns \<^verbatim>\<open>NULL\<close>; \<open>lib_null_handles\<close> returns \<^verbatim>\<open>NULL\<close> handles and still
  a packet.
\<close>

definition lib_ok :: "nat symphonia" where
  "lib_ok = \<lparr>sm_io_media_source_stream_new_file = (\<lambda>p w. (0x1000, Suc w)),
             sm_probe = (\<lambda>a w. (if a = NULL then NULL else 0x2000, Suc w)),
             sm_format_next_packet = (\<lambda>a w. (if a = NULL then NULL else 0x3000, Suc w))\<rparr>"

definition lib_absent :: "nat symphonia" where
  "lib_absent = \<lparr>sm_io_media_source_stream_new_file = (\<lambda>p w. (NULL, Suc w)),
                 sm_probe = (\<lambda>a w. (if a = NULL then NULL else 0x2000, Suc w)),
                 sm_format_next_packet = (\<lambda>a w. (if a = NULL then NULL else 0x3000, Suc w))\<rparr>"

definition lib_null_handles :: "nat symphonia" where
  "lib_null_handles = \<lparr>sm_io_media_source_stream_new_file = (\<lambda>p w. (NULL, Suc w)),
                       sm_probe = (\<lambda>a w. (NULL, Suc w)),
                       sm_format_next_packet = (\<lambda>a w. (0x3000, Suc w))\<rparr>"

section \<open>The probing and demuxing core behind the library calls\<close>

text \<open>
  The code of the prober and of the demuxer that \<^verbatim>\<open>main\<close> exercises is in the library,
  not in the source file. The definitions of this section follow the specification's
  description of that core (its sections 3, 4, 7 and 8).
\<close>

text \<open>
  Modelled from the spec: the error taxonomy of section 7 and the data model of section 3
  (the library's types are not in the source file). A byte source has its content, a
  current position and a seekability flag; a packet has a stream identifier, an opaque
  payload and its timing fields, in stream-local units.
\<close>

datatype error =
    IOError | UnseekableError | OutOfRangeError
  | UnrecognizedFormatError | TruncatedStreamError
  | CorruptContainerError
  | SeekIndexUnavailableError | InvalidStreamError

type_synonym byte = "8 word"

record byte_source =
  content :: "byte list"
  position :: nat
  seekable :: bool

record packet =
  stream_id :: nat
  payload :: "byte list"
  timestamp :: nat
  duration :: nat

text \<open>
  Modelled from the spec: the tie-break policy of section 4.2 ("highest confidence wins;
  on exact tie, first registered wins"), which the seek of section 4.3 shares for "the
  nearest packet at or before". The first position holding the greatest value of a list
  of optional values, scanned from the left with the best candidate so far: a later
  value replaces the candidate only when it is strictly greater, so the earliest
  position wins a tie.
\<close>

fun first_max :: "nat \<Rightarrow> (nat \<times> nat) option \<Rightarrow> nat option list \<Rightarrow> (nat \<times> nat) option" where
  "first_max i best [] = best"
| "first_max i best (None # vs) = first_max (Suc i) best vs"
| "first_max i best (Some v # vs) =
     first_max (Suc i)
       (case best of
          None \<Rightarrow> Some (i, v)
        | Some (j, b) \<Rightarrow> if b < v then Some (i, v) else Some (j, b))
       vs"

subsection \<open>Format prober\<close>

text \<open>
  Modelled from the spec: a registered detector of section 4.2: the format it stands
  for, and its verdict on a window of bytes, a confidence score or \<open>None\<close> when it cannot
  decide from the data it is given.
\<close>

record detector =
  format_name :: string
  detect :: "byte list \<Rightarrow> nat option"

text \<open>
  Modelled from the spec: the Format Prober of section 4.2 (\<^verbatim>\<open>sm_probe\<close> is implemented
  in the library, whose code is not in the source file). It looks at a window of at most
  \<open>window\<close> bytes from the start of the source without consuming it, asks every detector
  in registration order, and selects the highest confidence, the first registered on a
  tie. It fails with \<open>TruncatedStreamError\<close> when the window cannot be filled and no
  detector can decide, and with \<open>UnrecognizedFormatError\<close> when no detector exceeds the
  threshold.
\<close>

definition probe :: "detector list \<Rightarrow> nat \<Rightarrow> nat \<Rightarrow> byte_source \<Rightarrow> error + string" where
  "probe ds threshold window src =
     (let seen = take window (content src);
          verdicts = map (\<lambda>d. detect d seen) ds
      in if length seen < window \<and> filter (\<lambda>v. v \<noteq> None) verdicts = []
         then Inl TruncatedStreamError
         else (case first_max 0 None verdicts of
                 None \<Rightarrow> Inl UnrecognizedFormatError
               | Some (i, c) \<Rightarrow>
                   if threshold < c then Inr (format_name (ds ! i))
                   else Inl UnrecognizedFormatError))"

subsection \<open>Demuxer\<close>

text \<open>
  Modelled from the spec: the Demuxer of sections 3 and 4.3, with its states, its stream
  table, its cursor and whether the format has a seek index or allows a linear scan. The
  container is the list of what the record at each position parses to: a packet of some
  stream, or a malformed structure.
\<close>

datatype container_record = Rec packet | Malformed

datatype demux_state = Initialized | Streaming | Seeking | Exhausted | Failed

record stream_descriptor =
  codec_tag :: string
  ident :: nat
  time_base :: "nat \<times> nat"

record demuxer =
  records :: "container_record list"
  cursor :: nat
  state :: demux_state
  streams :: "stream_descriptor list"
  has_index :: bool
  linear_scan :: bool

datatype outcome = Packet packet | EndOfStream

text \<open>
  Modelled from the spec: \<open>next_packet\<close> of the Demuxer state machine of section 4.3
  (\<^verbatim>\<open>sm_format_next_packet\<close> is implemented in the library, whose code is not in the
  source file). An exhausted demuxer keeps returning \<open>EndOfStream\<close>; a failed one yields
  no further packet; otherwise the record at the cursor is read: past the last record
  the demuxer returns \<open>EndOfStream\<close> and becomes \<open>Exhausted\<close>, on a malformed record it
  fails with \<open>CorruptContainerError\<close> and becomes \<open>Failed\<close>, and on a packet it returns
  the packet, in arrival order, and is \<open>Streaming\<close>.
\<close>

definition next_packet :: "demuxer \<Rightarrow> (error + outcome) \<times> demuxer" where
  "next_packet d =
     (if state d = Exhausted then (Inr EndOfStream, d)
      else if state d = Failed then (Inl CorruptContainerError, d)
      else if length (records d) \<le> cursor d
        then (Inr EndOfStream, d\<lparr>state := Exhausted\<rparr>)
      else (case records d ! cursor d of
              Malformed \<Rightarrow> (Inl CorruptContainerError, d\<lparr>state := Failed\<rparr>)
            | Rec p \<Rightarrow> (Inr (Packet p), d\<lparr>cursor := Suc (cursor d), state := Streaming\<rparr>)))"

text \<open>A caller that calls \<open>next_packet\<close> \<open>n\<close> times and collects what it returned.\<close>

fun next_packets :: "nat \<Rightarrow> demuxer \<Rightarrow> (error + outcome) list \<times> demuxer" where
  "next_packets 0 d = ([], d)"
| "next_packets (Suc n) d =
     (let (r, d1) = next_packet d;
          (rs, d2) = next_packets n d1
      in (r # rs, d2))"

text \<open>
  Modelled from the spec: "the nearest packet at or before \<open>timestamp\<close>" of section 4.3.
  The timestamp a record offers to a seek on stream \<open>sid\<close> to time \<open>t\<close>: that of a packet
  of the stream at or before \<open>t\<close>, nothing otherwise.
\<close>

fun candidate :: "nat \<Rightarrow> nat \<Rightarrow> container_record \<Rightarrow> nat option" where
  "candidate sid t Malformed = None"
| "candidate sid t (Rec p) =
     (if stream_id p = sid \<and> timestamp p \<le> t then Some (timestamp p) else None)"

text \<open>
  Modelled from the spec: \<open>seek\<close> of the Demuxer of section 4.3 (the library's seek is
  not in the source file). It fails with \<open>InvalidStreamError\<close> for an unknown stream and
  with \<open>SeekIndexUnavailableError\<close> when the format has no index and linear scan is
  disabled; otherwise it locates the nearest packet of the stream at or before the
  timestamp, puts the cursor on it and is \<open>Streaming\<close>, returning that packet's
  timestamp. The specification names no outcome for a stream with no packet at or before
  the timestamp; the model lets the seek fail there, with \<open>OutOfRangeError\<close>, and leaves
  the demuxer as it was.
\<close>

definition seek :: "nat \<Rightarrow> nat \<Rightarrow> demuxer \<Rightarrow> (error + nat) \<times> demuxer" where
  "seek sid t d =
     (if sid \<notin> set (map ident (streams d)) then (Inl InvalidStreamError, d)
      else if \<not> has_index d \<and> \<not> linear_scan d then (Inl SeekIndexUnavailableError, d)
      else (case first_max 0 None (map (candidate sid t) (records d)) of
              None \<Rightarrow> (Inl OutOfRangeError, d)
            | Some (i, a) \<Rightarrow> (Inr a, d\<lparr>cursor := i, state := Streaming\<rparr>)))"

subsection \<open>Fixtures\<close>

text \<open>
  Three detectors, the first two scoring the same on the EBML magic number, and two byte
  sources with the same content, read to different positions.
\<close>

definition magic :: "byte list \<Rightarrow> byte list \<Rightarrow> nat option" where
  "magic m bs = (if length bs < length m then None
                 else if take (length m) bs = m then Some 255 else Some 0)"

definition detectors :: "detector list" where
  "detectors =
     [\<lparr>format_name = ''mkv'', detect = magic [0x1A, 0x45, 0xDF, 0xA3]\<rparr>,
      \<lparr>format_name = ''webm'', detect = magic [0x1A, 0x45, 0xDF, 0xA3]\<rparr>,
      \<lparr>format_name = ''ogg'', detect = magic [0x4F, 0x67, 0x67, 0x53]\<rparr>]"

definition ebml_fresh :: byte_source where
  "ebml_fresh = \<lparr>content = [0x1A, 0x45, 0xDF, 0xA3, 0x01, 0x00], position = 0, seekable = True\<rparr>"

definition ebml_read :: byte_source where
  "ebml_read = \<lparr>content = [0x1A, 0x45, 0xDF, 0xA3, 0x01, 0x00], position = 4, seekable = False\<rparr>"

text \<open>
  A container of two interleaved streams: stream 1 has packets at timestamps 0, 10 and
  20, stream 2 at 0 and 12.
\<close>

definition pkt :: "nat \<Rightarrow> nat \<Rightarrow> packet" where
  "pkt sid ts = \<lparr>stream_id = sid, payload = [], timestamp = ts, duration = 10\<rparr>"

definition fixture :: demuxer where
  "fixture =
     \<lparr>records = [Rec (pkt 1 0), Rec (pkt 2 0), Rec (pkt 1 10), Rec (pkt 2 12), Rec (pkt 1 20)],
      cursor = 0, state = Initialized,
      streams = [\<lparr>codec_tag = ''V_MPEGH/ISO/HEVC'', ident = 1, time_base = (1, 1000)\<rparr>,
                 \<lparr>codec_tag = ''A_OPUS'', ident = 2, time_base = (1, 1000)\<rparr>],
      has_index = True, linear_scan = False\<rparr>"

section \<open>Properties of \<^verbatim>\<open>main\<close>\<close>

text \<open>
  What a run from \<open>start w\<close> does, once the three library calls are named: the three
  calls in order, each on the previous result, then the message if the packet is not
  \<^verbatim>\<open>NULL\<close>, and exit status 0.
\<close>

lemma main_run:
  assumes "sm_io_media_source_stream_new_file L path w = (mss, w1)"
    and "sm_probe L mss w1 = (format, w2)"
    and "sm_format_next_packet L format w2 = (packet, w3)"
  shows "main L argc argv (start w) =
    (0, \<lparr>lib = w3,
         stdout = (if packet \<noteq> NULL then message else []),
         calls = [Sm_io_media_source_stream_new_file path mss, Sm_probe mss format,
                  Sm_format_next_packet format packet]
                 @ (if packet \<noteq> NULL then [Printf message] else [])\<rparr>)"
  using assms
  by (simp add: main_def start_def call_new_file_def call_probe_def call_next_packet_def
      printf_def)

lemma lib_ok_calls:
  "sm_io_media_source_stream_new_file lib_ok path 0 = (0x1000, 1)"
  "sm_probe lib_ok 0x1000 1 = (0x2000, 2)"
  "sm_format_next_packet lib_ok 0x2000 2 = (0x3000, 3)"
  by (simp_all add: lib_ok_def NULL_def)

lemma lib_absent_calls:
  "sm_io_media_source_stream_new_file lib_absent path 0 = (NULL, 1)"
  "sm_probe lib_absent NULL 1 = (NULL, 2)"
  "sm_format_next_packet lib_absent NULL 2 = (NULL, 3)"
  by (simp_all add: lib_absent_def)

lemma lib_null_handles_calls:
  "sm_io_media_source_stream_new_file lib_null_handles path 0 = (NULL, 1)"
  "sm_probe lib_null_handles NULL 1 = (NULL, 2)"
  "sm_format_next_packet lib_null_handles NULL 2 = (0x3000, 3)"
  by (simp_all add: lib_null_handles_def)

subsection \<open>The claims about the program\<close>

text \<open>
  Claim C1. The message "Packet was decoded" is written if and only if the one call to
  \<^verbatim>\<open>sm_format_next_packet\<close> returns a pointer that is not \<^verbatim>\<open>NULL\<close>: standard output is
  the message exactly when the packet is not \<^verbatim>\<open>NULL\<close> and empty exactly when it is, the
  \<^verbatim>\<open>printf\<close> call happens exactly when the packet is not \<^verbatim>\<open>NULL\<close>, and the only call to
  \<^verbatim>\<open>sm_format_next_packet\<close> of the run is the one on the probe's result.
\<close>
theorem main_message_iff_packet:
  assumes "sm_io_media_source_stream_new_file L path w = (mss, w1)"
    and "sm_probe L mss w1 = (format, w2)"
    and "sm_format_next_packet L format w2 = (packet, w3)"
  shows "(stdout (snd (main L argc argv (start w))) = ''Packet was decoded'') = (packet \<noteq> NULL)
    \<and> (stdout (snd (main L argc argv (start w))) = []) = (packet = NULL)
    \<and> (Printf ''Packet was decoded'' \<in> set (calls (snd (main L argc argv (start w)))))
        = (packet \<noteq> NULL)
    \<and> filter is_next_packet (calls (snd (main L argc argv (start w))))
        = [Sm_format_next_packet format packet]"
  by (simp add: main_run [OF assms] message_def)

theorem main_message_iff_packet_witness:
  "stdout (snd (main lib_ok 1 [''testc''] (start 0))) = ''Packet was decoded''
   \<and> filter is_next_packet (calls (snd (main lib_ok 1 [''testc''] (start 0))))
       = [Sm_format_next_packet 0x2000 0x3000]
   \<and> stdout (snd (main lib_absent 1 [''testc''] (start 0))) = []
   \<and> filter is_next_packet (calls (snd (main lib_absent 1 [''testc''] (start 0))))
       = [Sm_format_next_packet NULL NULL]"
  using main_message_iff_packet [OF lib_ok_calls, of 1 "[''testc'']"]
    main_message_iff_packet [OF lib_absent_calls, of 1 "[''testc'']"]
  by (simp add: NULL_def)

text \<open>
  Claim C2. Every run makes the three library calls in this order, each once and each on
  the result of the one before: \<^verbatim>\<open>sm_io_media_source_stream_new_file\<close> on the fixed path,
  \<^verbatim>\<open>sm_probe\<close> on its result, \<^verbatim>\<open>sm_format_next_packet\<close> on the probe's result. They are
  the first three calls of the run and its only library calls, and the library is left in
  the state the third call returned.
\<close>
theorem main_call_sequence:
  assumes "sm_io_media_source_stream_new_file L path w = (mss, w1)"
    and "sm_probe L mss w1 = (format, w2)"
    and "sm_format_next_packet L format w2 = (packet, w3)"
  shows "filter is_library_call (calls (snd (main L argc argv (start w))))
      = [Sm_io_media_source_stream_new_file path mss, Sm_probe mss format,
         Sm_format_next_packet format packet]
    \<and> take 3 (calls (snd (main L argc argv (start w))))
      = [Sm_io_media_source_stream_new_file path mss, Sm_probe mss format,
         Sm_format_next_packet format packet]
    \<and> lib (snd (main L argc argv (start w))) = w3"
  by (simp add: main_run [OF assms])

theorem main_call_sequence_witness:
  "filter is_library_call (calls (snd (main lib_ok 1 [''testc''] (start 0))))
      = [Sm_io_media_source_stream_new_file path 0x1000, Sm_probe 0x1000 0x2000,
         Sm_format_next_packet 0x2000 0x3000]
   \<and> lib (snd (main lib_ok 1 [''testc''] (start 0))) = 3"
  using main_call_sequence [OF lib_ok_calls, of 1 "[''testc'']"]
  by simp

text \<open>
  Claim C3. The only test the program makes is the comparison of the packet with
  \<^verbatim>\<open>NULL\<close>. Whatever the first two calls return, also \<^verbatim>\<open>NULL\<close>, the second call of the
  run is \<^verbatim>\<open>sm_probe\<close> on the first result and the third is \<^verbatim>\<open>sm_format_next_packet\<close> on
  the second result; and two runs, with any libraries and any returned handles, whose
  packets agree on being \<^verbatim>\<open>NULL\<close> make the same kinds of calls in the same order, write
  the same output and return the same status.
\<close>
theorem main_checks_only_packet:
  assumes "sm_io_media_source_stream_new_file L path w = (mss, w1)"
    and "sm_probe L mss w1 = (format, w2)"
    and "sm_format_next_packet L format w2 = (packet, w3)"
    and "sm_io_media_source_stream_new_file L' path w' = (mss', w1')"
    and "sm_probe L' mss' w1' = (format', w2')"
    and "sm_format_next_packet L' format' w2' = (packet', w3')"
    and "(packet = NULL) = (packet' = NULL)"
  shows "map kind_of (calls (snd (main L argc argv (start w))))
      = map kind_of (calls (snd (main L' argc' argv' (start w'))))
    \<and> stdout (snd (main L argc argv (start w))) = stdout (snd (main L' argc' argv' (start w')))
    \<and> fst (main L argc argv (start w)) = fst (main L' argc' argv' (start w'))
    \<and> calls (snd (main L argc argv (start w))) ! 1 = Sm_probe mss format
    \<and> calls (snd (main L argc argv (start w))) ! 2 = Sm_format_next_packet format packet"
  using assms(7)
  by (simp add: main_run [OF assms(1-3)] main_run [OF assms(4-6)])

theorem main_checks_only_packet_witness:
  "map kind_of (calls (snd (main lib_null_handles 1 [''testc''] (start 0))))
      = map kind_of (calls (snd (main lib_ok 1 [''testc''] (start 0))))
   \<and> stdout (snd (main lib_null_handles 1 [''testc''] (start 0)))
      = stdout (snd (main lib_ok 1 [''testc''] (start 0)))
   \<and> calls (snd (main lib_null_handles 1 [''testc''] (start 0))) ! 1 = Sm_probe NULL NULL
   \<and> calls (snd (main lib_null_handles 1 [''testc''] (start 0))) ! 2
      = Sm_format_next_packet NULL 0x3000"
  using main_checks_only_packet [OF lib_null_handles_calls lib_ok_calls,
      of 1 "[''testc'']" 1 "[''testc'']"]
  by (simp add: NULL_def)

text \<open>
  Claim C4. The run does not depend on the command line: with the same library and the same
  process state, any two values of \<^verbatim>\<open>argc\<close> and \<^verbatim>\<open>argv\<close> give the same exit status and
  the same final state (the same calls, output and library state), and the first call of
  a run opens the hard-coded path.
\<close>
theorem main_ignores_arguments:
  "main L argc argv s = main L argc' argv' s
   \<and> hd (calls (snd (main L argc argv (start w))))
     = Sm_io_media_source_stream_new_file path
         (fst (sm_io_media_source_stream_new_file L path w))"
  by (simp add: main_def start_def call_new_file_def call_probe_def call_next_packet_def
      printf_def split_def Let_def)

text \<open>
  Claim C5. On every path, packet \<^verbatim>\<open>NULL\<close> or not, the run makes no call that frees,
  closes or releases anything; in particular none of the three handles it obtained is
  released before \<^verbatim>\<open>main\<close> returns.
\<close>
theorem main_releases_nothing:
  assumes "sm_io_media_source_stream_new_file L path w = (mss, w1)"
    and "sm_probe L mss w1 = (format, w2)"
    and "sm_format_next_packet L format w2 = (packet, w3)"
  shows "filter is_release (calls (snd (main L argc argv (start w)))) = []
    \<and> Release mss \<notin> set (calls (snd (main L argc argv (start w))))
    \<and> Release format \<notin> set (calls (snd (main L argc argv (start w))))
    \<and> Release packet \<notin> set (calls (snd (main L argc argv (start w))))"
  by (simp add: main_run [OF assms])

theorem main_releases_nothing_witness:
  "filter is_release (calls (snd (main lib_ok 1 [''testc''] (start 0)))) = []
   \<and> Release 0x1000 \<notin> set (calls (snd (main lib_ok 1 [''testc''] (start 0))))
   \<and> Release 0x2000 \<notin> set (calls (snd (main lib_ok 1 [''testc''] (start 0))))
   \<and> Release 0x3000 \<notin> set (calls (snd (main lib_ok 1 [''testc''] (start 0))))
   \<and> filter is_release (calls (snd (main lib_absent 1 [''testc''] (start 0)))) = []"
  using main_releases_nothing [OF lib_ok_calls, of 1 "[''testc'']"]
    main_releases_nothing [OF lib_absent_calls, of 1 "[''testc'']"]
  by simp

text \<open>
  Claim C9. \<^verbatim>\<open>main\<close> returns exit status 0 on every path: for every library, every
  command line and every process state, whatever the three calls return.
\<close>
theorem main_returns_zero:
  "fst (main L argc argv s) = 0"
  by (simp add: main_def split_def Let_def)

text \<open>
  Claim C10. The whole standard output of a run is either empty or exactly the string
  "Packet was decoded", with no newline in it; from any process state, the run leaves
  standard output as it was or appends exactly that string.
\<close>
theorem main_stdout:
  "(stdout (snd (main L argc argv (start w))) = []
      \<or> stdout (snd (main L argc argv (start w))) = ''Packet was decoded'')
   \<and> CHR 0x0A \<notin> set (stdout (snd (main L argc argv (start w))))
   \<and> (stdout (snd (main L argc argv s)) = stdout s
      \<or> stdout (snd (main L argc argv s)) = stdout s @ ''Packet was decoded'')"
  by (simp add: main_def start_def call_new_file_def call_probe_def call_next_packet_def
      printf_def split_def Let_def message_def)

section \<open>Properties of the probing and demuxing core\<close>

subsection \<open>The first greatest value\<close>

lemma nth_Cons_shift: "Suc i \<le> j \<Longrightarrow> (x # vs) ! (j - i) = vs ! (j - Suc i)"
  by (simp add: nth_Cons')

lemma first_max_position:
  "first_max i best vs = Some (j, a) \<Longrightarrow>
     best = Some (j, a) \<or> (i \<le> j \<and> j - i < length vs \<and> vs ! (j - i) = Some a)"
proof (induction i best vs rule: first_max.induct)
  case (1 i best)
  then show ?case by simp
next
  case (2 i best vs)
  then have "best = Some (j, a) \<or> (Suc i \<le> j \<and> j - Suc i < length vs \<and> vs ! (j - Suc i) = Some a)"
    by simp
  then show ?case
    by (auto simp: nth_Cons_shift)
next
  case (3 i best v vs)
  let ?b = "case best of None \<Rightarrow> Some (i, v)
            | Some (j, b) \<Rightarrow> if b < v then Some (i, v) else Some (j, b)"
  from 3 have "?b = Some (j, a) \<or> (Suc i \<le> j \<and> j - Suc i < length vs \<and> vs ! (j - Suc i) = Some a)"
    by simp
  then show ?case
    by (auto simp: nth_Cons_shift split: option.splits if_splits)
qed

lemma first_max_greatest:
  "first_max i best vs = Some (j, a) \<Longrightarrow>
     (\<forall>j' b. best = Some (j', b) \<longrightarrow> b \<le> a) \<and> (\<forall>k<length vs. \<forall>b. vs ! k = Some b \<longrightarrow> b \<le> a)"
proof (induction i best vs rule: first_max.induct)
  case (1 i best)
  then show ?case by simp
next
  case (2 i best vs)
  then show ?case by (auto simp: nth_Cons split: nat.splits)
next
  case (3 i best v vs)
  then show ?case
    by (fastforce simp: nth_Cons split: nat.splits option.splits if_splits)
qed

lemma first_max_earliest:
  "first_max i best vs = Some (j, a) \<Longrightarrow> (\<forall>j' b. best = Some (j', b) \<longrightarrow> j' < i) \<Longrightarrow>
     (\<forall>j' b. best = Some (j', b) \<longrightarrow> (j', b) = (j, a) \<or> b < a)
     \<and> (\<forall>k<length vs. \<forall>b. vs ! k = Some b \<longrightarrow> i + k < j \<longrightarrow> b < a)"
proof (induction i best vs rule: first_max.induct)
  case (1 i best)
  then show ?case by simp
next
  case (2 i best vs)
  then have "(\<forall>j' b. best = Some (j', b) \<longrightarrow> (j', b) = (j, a) \<or> b < a)
     \<and> (\<forall>k<length vs. \<forall>b. vs ! k = Some b \<longrightarrow> Suc i + k < j \<longrightarrow> b < a)"
    by (simp add: less_Suc_eq)
  then show ?case by (auto simp: nth_Cons split: nat.splits)
next
  case (3 i best v vs)
  let ?b = "case best of None \<Rightarrow> Some (i, v)
            | Some (j, b) \<Rightarrow> if b < v then Some (i, v) else Some (j, b)"
  have inv: "\<forall>j' b. ?b = Some (j', b) \<longrightarrow> j' < Suc i"
    using 3(3) by (auto split: option.splits if_splits simp: less_Suc_eq)
  from 3(2) have run: "first_max (Suc i) ?b vs = Some (j, a)" by simp
  from 3(1) [OF run inv]
  have ih: "(\<forall>j' b. ?b = Some (j', b) \<longrightarrow> (j', b) = (j, a) \<or> b < a)"
       "(\<forall>k<length vs. \<forall>b. vs ! k = Some b \<longrightarrow> Suc i + k < j \<longrightarrow> b < a)"
    by blast+
  have old: "\<forall>j' b. best = Some (j', b) \<longrightarrow> (j', b) = (j, a) \<or> b < a"
    using ih(1) by (auto split: option.splits if_splits)
  have here: "i < j \<longrightarrow> v < a"
    using ih(1) 3(3) by (auto split: option.splits if_splits)
  show ?case
    using old here ih(2) by (auto simp: nth_Cons split: nat.splits)
qed

subsection \<open>The claims about the demuxer and the prober\<close>

lemma next_packets_exhausted:
  "state d = Exhausted \<Longrightarrow> next_packets n d = (replicate n (Inr EndOfStream), d)"
  by (induction n) (simp_all add: next_packet_def)

lemma next_packet_end_exhausted:
  "next_packet d0 = (Inr EndOfStream, d) \<Longrightarrow> state d = Exhausted"
  by (auto simp: next_packet_def split: if_splits container_record.splits)

text \<open>
  Claim C6. Once \<open>next_packet\<close> has returned \<open>EndOfStream\<close>, the demuxer is \<open>Exhausted\<close>,
  and any number \<open>n\<close> of further calls all return \<open>EndOfStream\<close>, none of them an
  error, and leave the demuxer as it is.
\<close>
theorem exhausted_idempotent:
  assumes "next_packet d0 = (Inr EndOfStream, d)"
  shows "state d = Exhausted
    \<and> next_packets n d = (replicate n (Inr EndOfStream), d)
    \<and> filter (\<lambda>r. r \<noteq> Inr EndOfStream) (fst (next_packets n d)) = []"
proof -
  have ex: "state d = Exhausted"
    using assms by (rule next_packet_end_exhausted)
  then have "next_packets n d = (replicate n (Inr EndOfStream), d)"
    by (rule next_packets_exhausted)
  with ex show ?thesis by simp
qed

lemma fixture_read_all:
  "snd (next_packets 5 fixture) = fixture\<lparr>cursor := 5, state := Streaming\<rparr>"
  by (simp add: eval_nat_numeral next_packet_def fixture_def)

lemma fixture_end:
  "next_packet (fixture\<lparr>cursor := 5, state := Streaming\<rparr>)
     = (Inr EndOfStream, fixture\<lparr>cursor := 5, state := Exhausted\<rparr>)"
  by (simp add: next_packet_def fixture_def)

theorem exhausted_idempotent_witness:
  "next_packet (snd (next_packets 5 fixture))
     = (Inr EndOfStream, fixture\<lparr>cursor := 5, state := Exhausted\<rparr>)
   \<and> next_packets 3 (fixture\<lparr>cursor := 5, state := Exhausted\<rparr>)
     = ([Inr EndOfStream, Inr EndOfStream, Inr EndOfStream],
        fixture\<lparr>cursor := 5, state := Exhausted\<rparr>)"
  using exhausted_idempotent [OF fixture_end, of 3] fixture_end fixture_read_all
  by (simp add: eval_nat_numeral)

text \<open>
  Claim C7. Probing is deterministic: two byte sources with the same content are probed
  to the same result, whatever their positions or seekability; and a selected format is
  that of a detector whose confidence exceeds the threshold, is the highest of all
  detectors, and is strictly higher than that of every detector registered before it
  (on a tie the first registered detector wins).
\<close>
theorem probe_deterministic:
  assumes "content s1 = content s2"
  shows "probe ds thr n s1 = probe ds thr n s2
    \<and> (\<forall>f. probe ds thr n s1 = Inr f \<longrightarrow>
         (\<exists>i<length ds. \<exists>c. f = format_name (ds ! i)
            \<and> detect (ds ! i) (take n (content s1)) = Some c \<and> thr < c
            \<and> (\<forall>k<length ds. \<forall>b. detect (ds ! k) (take n (content s1)) = Some b \<longrightarrow>
                  b \<le> c \<and> (k < i \<longrightarrow> b < c))))"
proof (intro conjI allI impI)
  show "probe ds thr n s1 = probe ds thr n s2"
    using assms by (simp add: probe_def)
next
  fix f
  assume ok: "probe ds thr n s1 = Inr f"
  let ?seen = "take n (content s1)"
  let ?vs = "map (\<lambda>d. detect d ?seen) ds"
  from ok obtain i c where sel: "first_max 0 None ?vs = Some (i, c)"
    and thr: "thr < c" and f: "f = format_name (ds ! i)"
    by (auto simp: probe_def Let_def split: if_splits option.splits)
  from first_max_position [OF sel] have i: "i < length ds"
    by simp
  with first_max_position [OF sel] have at: "detect (ds ! i) ?seen = Some c"
    by simp
  from first_max_greatest [OF sel]
  have great: "\<forall>k<length ds. \<forall>b. ?vs ! k = Some b \<longrightarrow> b \<le> c"
    by simp
  from first_max_earliest [OF sel]
  have early: "\<forall>k<length ds. \<forall>b. ?vs ! k = Some b \<longrightarrow> k < i \<longrightarrow> b < c"
    by simp
  show "\<exists>i<length ds. \<exists>c. f = format_name (ds ! i)
            \<and> detect (ds ! i) ?seen = Some c \<and> thr < c
            \<and> (\<forall>k<length ds. \<forall>b. detect (ds ! k) ?seen = Some b \<longrightarrow>
                  b \<le> c \<and> (k < i \<longrightarrow> b < c))"
    using i at thr f great early by (intro exI [of _ i] conjI exI [of _ c]) simp_all
qed

lemma probe_ebml_fresh: "probe detectors 0 4 ebml_fresh = Inr ''mkv''"
  by (simp add: probe_def detectors_def ebml_fresh_def magic_def)

theorem probe_deterministic_witness:
  "content ebml_fresh = content ebml_read
   \<and> position ebml_fresh \<noteq> position ebml_read
   \<and> probe detectors 0 4 ebml_fresh = Inr ''mkv''
   \<and> probe detectors 0 4 ebml_read = Inr ''mkv''
   \<and> detect (detectors ! 0) (take 4 (content ebml_fresh)) = Some 255
   \<and> detect (detectors ! 1) (take 4 (content ebml_fresh)) = Some 255"
proof -
  have same: "content ebml_fresh = content ebml_read"
    by (simp add: ebml_fresh_def ebml_read_def)
  from probe_deterministic [OF same, of detectors 0 4]
  have "probe detectors 0 4 ebml_read = probe detectors 0 4 ebml_fresh"
    by simp
  then show ?thesis
    using same probe_ebml_fresh
    by (simp add: detectors_def ebml_fresh_def ebml_read_def magic_def)
qed

text \<open>
  Claim C8. After a successful \<open>seek sid t\<close>, returning the timestamp \<open>a\<close>, the next
  \<open>next_packet\<close> returns a packet of stream \<open>sid\<close> with timestamp \<open>a\<close>, where \<open>a \<le> t\<close>,
  and the container holds no packet of that stream with a timestamp after \<open>a\<close> and at or
  before \<open>t\<close>; a seek succeeds only for a known stream.
\<close>
theorem seek_then_next_packet:
  assumes "seek sid t d = (Inr a, d1)"
  shows "\<exists>p. fst (next_packet d1) = Inr (Packet p)
    \<and> stream_id p = sid \<and> timestamp p = a \<and> a \<le> t
    \<and> (\<forall>q. Rec q \<in> set (records d) \<and> stream_id q = sid \<longrightarrow>
          \<not> (a < timestamp q \<and> timestamp q \<le> t))
    \<and> sid \<in> set (map ident (streams d))"
proof -
  let ?vs = "map (candidate sid t) (records d)"
  from assms obtain i where sel: "first_max 0 None ?vs = Some (i, a)"
    and d1: "d1 = d\<lparr>cursor := i, state := Streaming\<rparr>"
    and known: "sid \<in> set (map ident (streams d))"
    by (auto simp: seek_def split: if_splits option.splits)
  from first_max_position [OF sel] have i: "i < length (records d)"
    by simp
  with first_max_position [OF sel] have at: "candidate sid t (records d ! i) = Some a"
    by simp
  from at obtain p where p: "records d ! i = Rec p" "stream_id p = sid" "timestamp p = a" "a \<le> t"
    by (cases "records d ! i") (auto split: if_splits)
  have nxt: "fst (next_packet d1) = Inr (Packet p)"
    using i p(1) by (simp add: next_packet_def d1)
  have great: "\<forall>k<length (records d). \<forall>b. candidate sid t (records d ! k) = Some b \<longrightarrow> b \<le> a"
    using first_max_greatest [OF sel] by simp
  have none: "\<not> (a < timestamp q \<and> timestamp q \<le> t)"
    if q: "Rec q \<in> set (records d) \<and> stream_id q = sid" for q
  proof
    assume between: "a < timestamp q \<and> timestamp q \<le> t"
    from q obtain k where k: "k < length (records d)" "records d ! k = Rec q"
      by (auto simp: in_set_conv_nth)
    with q between have "candidate sid t (records d ! k) = Some (timestamp q)"
      by simp
    with great k(1) have "timestamp q \<le> a" by blast
    with between show False by simp
  qed
  show ?thesis
    using nxt p(2-4) none known by blast
qed

lemma fixture_seek:
  "seek 1 15 fixture = (Inr 10, fixture\<lparr>cursor := 2, state := Streaming\<rparr>)"
  by (simp add: seek_def fixture_def pkt_def)

theorem seek_then_next_packet_witness:
  "seek 1 15 fixture = (Inr 10, fixture\<lparr>cursor := 2, state := Streaming\<rparr>)
   \<and> (\<exists>p. fst (next_packet (fixture\<lparr>cursor := 2, state := Streaming\<rparr>)) = Inr (Packet p)
         \<and> stream_id p = 1 \<and> timestamp p = 10)
   \<and> fst (next_packet (fixture\<lparr>cursor := 2, state := Streaming\<rparr>)) = Inr (Packet (pkt 1 10))"
proof -
  from seek_then_next_packet [OF fixture_seek]
  have "\<exists>p. fst (next_packet (fixture\<lparr>cursor := 2, state := Streaming\<rparr>)) = Inr (Packet p)
         \<and> stream_id p = 1 \<and> timestamp p = 10"
    by blast
  moreover have "fst (next_packet (fixture\<lparr>cursor := 2, state := Streaming\<rparr>))
      = Inr (Packet (pkt 1 10))"
    by (simp add: next_packet_def fixture_def)
  ultimately show ?thesis
    using fixture_seek by simp
qed

end
